theory Spec2Isabelle
  imports Complex_Main "HOL-Library.Word"
begin

section \<open>JavaScript strings\<close>

text \<open>
  A JavaScript string is a sequence of UTF-16 code units and \<open>.length\<close> counts code
  units, so a string is a list of 16-bit words. \<open>str\<close> embeds an ASCII literal of the
  source.
\<close>

type_synonym jsstring = "16 word list"

definition str :: "string \<Rightarrow> jsstring" where
  "str cs = map of_char cs"

text \<open>
  \<open>String.prototype.trim\<close> removes the code units that ECMAScript calls WhiteSpace or
  LineTerminator from both ends.
\<close>

definition isWhiteSpace :: "16 word \<Rightarrow> bool" where
  "isWhiteSpace c =
     (c = 0x0009 \<or> c = 0x000A \<or> c = 0x000B \<or> c = 0x000C \<or> c = 0x000D \<or> c = 0x0020 \<or>
      c = 0x00A0 \<or> c = 0x1680 \<or> (0x2000 \<le> c \<and> c \<le> 0x200A) \<or> c = 0x2028 \<or>
      c = 0x2029 \<or> c = 0x202F \<or> c = 0x205F \<or> c = 0x3000 \<or> c = 0xFEFF)"

definition trim :: "jsstring \<Rightarrow> jsstring" where
  "trim s = rev (dropWhile isWhiteSpace (rev (dropWhile isWhiteSpace s)))"

text \<open>
  Template literals print a non-negative integer in decimal.
\<close>

fun nat_toString :: "nat \<Rightarrow> string" where
  "nat_toString n =
     (if n < 10 then [''0123456789'' ! n]
      else nat_toString (n div 10) @ [''0123456789'' ! (n mod 10)])"

declare nat_toString.simps [simp del]

text \<open>
  \<open>new TextEncoder().encode(text)\<close>: the string is read as code points (a surrogate
  pair is one code point, a lone surrogate becomes U+FFFD) and each code point is
  written in UTF-8.
\<close>

definition isHighSurrogate :: "16 word \<Rightarrow> bool" where
  "isHighSurrogate c = (0xD800 \<le> c \<and> c \<le> 0xDBFF)"

definition isLowSurrogate :: "16 word \<Rightarrow> bool" where
  "isLowSurrogate c = (0xDC00 \<le> c \<and> c \<le> 0xDFFF)"

definition scalar_of_unit :: "16 word \<Rightarrow> nat" where
  "scalar_of_unit c = (if isHighSurrogate c \<or> isLowSurrogate c then 0xFFFD else unat c)"

fun code_points :: "jsstring \<Rightarrow> nat list" where
  "code_points [] = []"
| "code_points [c] = [scalar_of_unit c]"
| "code_points (c # d # cs) =
     (if isHighSurrogate c \<and> isLowSurrogate d
      then (0x10000 + (unat c - 0xD800) * 0x400 + (unat d - 0xDC00)) # code_points cs
      else scalar_of_unit c # code_points (d # cs))"

definition utf8 :: "nat \<Rightarrow> 8 word list" where
  "utf8 cp =
     (if cp < 0x80 then [of_nat cp]
      else if cp < 0x800 then [of_nat (0xC0 + cp div 64), of_nat (0x80 + cp mod 64)]
      else if cp < 0x10000 then
        [of_nat (0xE0 + cp div 4096), of_nat (0x80 + cp div 64 mod 64),
         of_nat (0x80 + cp mod 64)]
      else
        [of_nat (0xF0 + cp div 262144), of_nat (0x80 + cp div 4096 mod 64),
         of_nat (0x80 + cp div 64 mod 64), of_nat (0x80 + cp mod 64)])"

definition TextEncoder_encode :: "jsstring \<Rightarrow> 8 word list" where
  "TextEncoder_encode text = concat (map utf8 (code_points text))"

section \<open>The generator: error-correction level\<close>

text \<open>
  \<open>getOptimalErrorCorrection\<close> returns one of the four letters. The source's comments
  give each level's recovery capacity in percent: L 7, M 15, Q 25, H 30.
\<close>

datatype ec_level = EC_L | EC_M | EC_Q | EC_H

fun recovery_percent :: "ec_level \<Rightarrow> nat" where
  "recovery_percent EC_L = 7"
| "recovery_percent EC_M = 15"
| "recovery_percent EC_Q = 25"
| "recovery_percent EC_H = 30"

text \<open>The argument is a string or a byte array; only its \<open>.length\<close> is read.\<close>

definition getOptimalErrorCorrection :: "'a list \<Rightarrow> ec_level" where
  "getOptimalErrorCorrection text =
     (if length text > 500 then EC_L
      else if length text > 200 then EC_M
      else if length text > 100 then EC_Q
      else EC_H)"

fun ec_letter :: "ec_level \<Rightarrow> string" where
  "ec_letter EC_L = ''L''"
| "ec_letter EC_M = ''M''"
| "ec_letter EC_Q = ''Q''"
| "ec_letter EC_H = ''H''"

section \<open>The generator: state\<close>

text \<open>
  What the generator reads from the encoder's result: \<open>qr.getModuleCount()\<close> and
  \<open>qr.isDark(row, col)\<close>.
\<close>

record qr =
  getModuleCount :: nat
  isDark :: "nat \<Rightarrow> nat \<Rightarrow> bool"

text \<open>
  An attribute set from a fixed string or from an integer is the text that
  \<open>setAttribute\<close> receives; an attribute set from a computed number keeps the
  number, with JavaScript's arithmetic on it read as exact arithmetic on rationals.
\<close>

datatype attr_value = Num rat | Text string

type_synonym svg_rect = "(string \<times> attr_value) list"

record svg =
  svg_attrs :: "(string \<times> attr_value) list"
  svg_style :: "(string \<times> string) list"
  svg_children :: "svg_rect list"

datatype node = SvgNode svg | InfoNode jsstring

text \<open>
  The fields of \<open>QRCodeGenerator\<close> that its methods read and write. \<open>timeouts\<close>
  holds the callbacks that \<open>showError\<close> has registered with \<open>setTimeout\<close> and
  that have not run yet, each with the milliseconds left until it runs; all of them
  are the same function, which empties the error container. \<open>encoder_calls\<close> records
  every request made to the \<open>qrcode\<close> library.
\<close>

record generator =
  textInput_value :: jsstring
  qrCodeContainer :: "node list"
  errorContainer_textContent :: jsstring
  maxLength :: nat
  timeouts :: "nat list"
  encoder_calls :: "(ec_level \<times> 8 word list) list"

definition showError :: "jsstring \<Rightarrow> generator \<Rightarrow> generator" where
  "showError message g =
     g\<lparr>errorContainer_textContent := message, timeouts := timeouts g @ [5000]\<rparr>"

text \<open>
  \<open>setTimeout\<close> runs a callback once its delay has passed. \<open>elapse d\<close> lets
  \<open>d\<close> milliseconds pass with no other event: every registered callback whose
  delay is over runs, the others come \<open>d\<close> milliseconds closer.
\<close>

definition elapse :: "nat \<Rightarrow> generator \<Rightarrow> generator" where
  "elapse d g =
     g\<lparr>errorContainer_textContent :=
         (if filter (\<lambda>t. t \<le> d) (timeouts g) = [] then errorContainer_textContent g else []),
       timeouts := map (\<lambda>t. t - d) (filter (\<lambda>t. d < t) (timeouts g))\<rparr>"

section \<open>The generator: rendering\<close>

definition appendChild :: "svg_rect \<Rightarrow> svg \<Rightarrow> svg" where
  "appendChild r s = s\<lparr>svg_children := svg_children s @ [r]\<rparr>"

definition dark_rect :: "rat \<Rightarrow> nat \<Rightarrow> nat \<Rightarrow> svg_rect" where
  "dark_rect moduleSize row col =
     [(''x'', Num (of_nat col * moduleSize)),
      (''y'', Num (of_nat row * moduleSize)),
      (''width'', Num moduleSize),
      (''height'', Num moduleSize),
      (''fill'', Text ''#000000'')]"

function col_loop :: "qr \<Rightarrow> rat \<Rightarrow> nat \<Rightarrow> nat \<Rightarrow> nat \<Rightarrow> svg \<Rightarrow> svg" where
  "col_loop q moduleSize moduleCount row col s =
     (if col < moduleCount
      then col_loop q moduleSize moduleCount row (Suc col)
             (if isDark q row col then appendChild (dark_rect moduleSize row col) s else s)
      else s)"
  by pat_completeness auto
termination
  by (relation "measure (\<lambda>(q, moduleSize, moduleCount, row, col, s). moduleCount - col)") auto

declare col_loop.simps [simp del]

function row_loop :: "qr \<Rightarrow> rat \<Rightarrow> nat \<Rightarrow> nat \<Rightarrow> svg \<Rightarrow> svg" where
  "row_loop q moduleSize moduleCount row s =
     (if row < moduleCount
      then row_loop q moduleSize moduleCount (Suc row)
             (col_loop q moduleSize moduleCount row 0 s)
      else s)"
  by pat_completeness auto
termination
  by (relation "measure (\<lambda>(q, moduleSize, moduleCount, row, s). moduleCount - row)") auto

declare row_loop.simps [simp del]

definition background_rect :: svg_rect where
  "background_rect =
     [(''width'', Text ''100%''), (''height'', Text ''100%''), (''fill'', Text ''#ffffff'')]"

text \<open>
  With a module count of 0 the division gives Infinity in JavaScript and 0 here; no
  loop iteration runs then, so the quotient is not used.
\<close>

definition createQRCodeSVG :: "qr \<Rightarrow> svg" where
  "createQRCodeSVG q =
     (let moduleCount = getModuleCount q;
          size = (200 :: nat);
          moduleSize = of_nat size / of_nat moduleCount;
          s = \<lparr>svg_attrs =
                 [(''width'', Text (nat_toString size)),
                  (''height'', Text (nat_toString size)),
                  (''viewBox'', Text (''0 0 '' @ nat_toString size @ '' '' @ nat_toString size))],
               svg_style = [(''border'', ''1px solid #ddd''), (''background'', ''white'')],
               svg_children = []\<rparr>
      in row_loop q moduleSize moduleCount 0 (appendChild background_rect s))"

definition showQRCodeInfo :: "qr \<Rightarrow> nat \<Rightarrow> ec_level \<Rightarrow> generator \<Rightarrow> generator" where
  "showQRCodeInfo q textLength errorCorrection g =
     (let moduleCount = getModuleCount q
      in g\<lparr>qrCodeContainer := qrCodeContainer g @
            [InfoNode (str (''QR Code: '' @ nat_toString moduleCount @ ''x'' @
                            nat_toString moduleCount @ '' modules | '' @
                            ''Text: '' @ nat_toString textLength @ '' chars | '' @
                            ''Error correction: '' @ ec_letter errorCorrection))]\<rparr>)"

section \<open>The generator: operations\<close>

text \<open>
  The \<open>qrcode\<close> library is a parameter: \<open>qrcode level bytes\<close> stands for
  \<open>qrcode(0, level)\<close>, \<open>addData(bytes, "Byte")\<close> and \<open>make()\<close>, and is either the
  thrown error or the finished symbol. The state keeps what the page shows and what
  the methods read back; the line written to the console in the catch block and the
  inline styles of the information line are not part of it.
\<close>

type_synonym encoder = "ec_level \<Rightarrow> 8 word list \<Rightarrow> jsstring + qr"

definition generateQRCode :: "encoder \<Rightarrow> generator \<Rightarrow> generator" where
  "generateQRCode qrcode g =
     (let text = trim (textInput_value g) in
      if text = [] then showError (str ''Please enter some text first!'') g
      else if length text > maxLength g then
        showError (str (''Text is too long! Maximum '' @ nat_toString (maxLength g) @
                        '' characters allowed.'')) g
      else
        let textByteArray = TextEncoder_encode text;
            g1 = g\<lparr>qrCodeContainer := [], errorContainer_textContent := []\<rparr>;
            errorCorrectionLevel = getOptimalErrorCorrection textByteArray;
            g2 = g1\<lparr>encoder_calls :=
                       encoder_calls g1 @ [(errorCorrectionLevel, textByteArray)]\<rparr>
        in case qrcode errorCorrectionLevel textByteArray of
             Inl error \<Rightarrow>
               showError (str (''Error generating QR code. The text might be too long '' @
                               ''or contain unsupported characters.'')) g2
           | Inr q \<Rightarrow>
               showQRCodeInfo q (length text) errorCorrectionLevel
                 (g2\<lparr>qrCodeContainer := qrCodeContainer g2 @ [SvgNode (createQRCodeSVG q)]\<rparr>))"

definition clearAll :: "generator \<Rightarrow> generator" where
  "clearAll g =
     g\<lparr>textInput_value := [], qrCodeContainer := [], errorContainer_textContent := []\<rparr>"

section \<open>The scanner: state\<close>

text \<open>What \<open>jsQR\<close> reports: the decoded text and where the symbol lies in the image.\<close>

record point =
  pt_x :: rat
  pt_y :: rat

record location =
  topRightCorner :: point
  topLeftCorner :: point
  bottomRightCorner :: point
  bottomLeftCorner :: point
  topRightFinderPattern :: point
  topLeftFinderPattern :: point
  bottomLeftFinderPattern :: point

record code =
  code_data :: jsstring
  code_location :: location

record image =
  img_width :: nat
  img_height :: nat
  img_pixels :: "8 word list"

text \<open>
  A canvas keeps the numbers assigned to \<open>width\<close> and \<open>height\<close> and the
  \<open>drawImage\<close> calls made on its context, with the arguments as the code passes
  them. What the platform paints from them is not part of the model.
\<close>

record drawImage_call =
  source :: image
  sx :: rat
  sy :: rat
  sWidth :: rat
  sHeight :: rat
  dx :: rat
  dy :: rat
  dWidth :: rat
  dHeight :: rat

record canvas =
  canvas_width :: rat
  canvas_height :: rat
  canvas_draws :: "drawImage_call list"

text \<open>
  The preview's \<open>src\<close> is a string, or the data URL of a canvas, kept as the canvas
  it was taken from.
\<close>

datatype image_src = Url jsstring | DataURL_of canvas

record scanner =
  fileInput_value :: jsstring
  preview_src :: image_src
  previewArea_classList :: "string list"
  resultText_value :: jsstring
  copyBtn_disabled :: bool
  clearBtn_disabled :: bool

definition classList_add :: "string \<Rightarrow> string list \<Rightarrow> string list" where
  "classList_add c cs = (if c \<in> set cs then cs else cs @ [c])"

definition classList_remove :: "string \<Rightarrow> string list \<Rightarrow> string list" where
  "classList_remove c cs = filter (\<lambda>d. d \<noteq> c) cs"

section \<open>The scanner: operations\<close>

definition toggleButtons :: "scanner \<Rightarrow> scanner" where
  "toggleButtons s =
     (let hasText = length (trim (resultText_value s)) > 0
      in s\<lparr>copyBtn_disabled := \<not> hasText, clearBtn_disabled := \<not> hasText\<rparr>)"

definition displayQRCodeArea :: "location \<Rightarrow> image \<Rightarrow> scanner \<Rightarrow> scanner" where
  "displayQRCodeArea loc originalImg s =
     (let padding = 10;
          qrWidth = pt_x (bottomRightCorner loc) - pt_x (topLeftCorner loc) + padding * 2;
          qrHeight = pt_y (bottomRightCorner loc) - pt_y (topLeftCorner loc) + padding * 2;
          qrCanvas = \<lparr>canvas_width = qrWidth, canvas_height = qrHeight,
                      canvas_draws =
                        [\<lparr>source = originalImg,
                          sx = pt_x (topLeftCorner loc) - padding,
                          sy = pt_y (topLeftCorner loc) - padding,
                          sWidth = qrWidth, sHeight = qrHeight,
                          dx = 0, dy = 0,
                          dWidth = qrWidth, dHeight = qrHeight\<rparr>]\<rparr>
      in s\<lparr>preview_src := DataURL_of qrCanvas,
           previewArea_classList := classList_remove ''hidden'' (previewArea_classList s)\<rparr>)"

text \<open>
  \<open>jsQR\<close> is a parameter: given the pixels, the width and the height it throws an
  error (\<open>Inl\<close>, with the error's \<open>message\<close>), finds nothing (\<open>Inr None\<close>) or
  returns a code. The pixels are those of the image drawn at its own size.
\<close>

type_synonym decoder = "8 word list \<Rightarrow> nat \<Rightarrow> nat \<Rightarrow> jsstring + code option"

definition scanQRCode :: "decoder \<Rightarrow> image \<Rightarrow> scanner \<Rightarrow> scanner" where
  "scanQRCode jsQR img s =
     (case jsQR (img_pixels img) (img_width img) (img_height img) of
        Inr (Some c) \<Rightarrow>
          toggleButtons
            (displayQRCodeArea (code_location c) img (s\<lparr>resultText_value := code_data c\<rparr>))
      | Inr None \<Rightarrow>
          s\<lparr>resultText_value := str ''No QR code found'',
            previewArea_classList := classList_add ''hidden'' (previewArea_classList s)\<rparr>
      | Inl message \<Rightarrow>
          s\<lparr>resultText_value := str ''Error scanning QR code: '' @ message,
            previewArea_classList := classList_add ''hidden'' (previewArea_classList s)\<rparr>)"

definition clearResults :: "scanner \<Rightarrow> scanner" where
  "clearResults s =
     toggleButtons
       (s\<lparr>resultText_value := [],
          previewArea_classList := classList_add ''hidden'' (previewArea_classList s),
          preview_src := Url [],
          fileInput_value := []\<rparr>)"

section \<open>Auxiliary definitions and sample inputs\<close>

text \<open>The dark rectangles that one pass of the inner loop appends for a row.\<close>

definition row_rects :: "qr \<Rightarrow> rat \<Rightarrow> nat \<Rightarrow> nat \<Rightarrow> svg_rect list" where
  "row_rects q ms n row = map (dark_rect ms row) (filter (isDark q row) [0..<n])"

text \<open>A symbol of 3 by 3 modules whose diagonal is dark.\<close>

definition sample_qr :: qr where
  "sample_qr = \<lparr>getModuleCount = 3, isDark = (\<lambda>row col. row = col)\<rparr>"

text \<open>An encoder that always throws, and one that always returns the sample symbol.\<close>

definition failing_encoder :: encoder where
  "failing_encoder level bytes = Inl (str ''code length overflow'')"

definition sample_encoder :: encoder where
  "sample_encoder level bytes = Inr sample_qr"

text \<open>
  Generators with a limit of 1000: one that holds a text and shows an earlier symbol,
  one whose text is three spaces, and one with a limit of 5 and a longer text.
\<close>

definition sample_generator :: generator where
  "sample_generator =
     \<lparr>textInput_value = str '' hello '',
      qrCodeContainer = [SvgNode (createQRCodeSVG sample_qr), InfoNode (str ''earlier'')],
      errorContainer_textContent = [],
      maxLength = 1000,
      timeouts = [],
      encoder_calls = []\<rparr>"

definition blank_generator :: generator where
  "blank_generator = sample_generator\<lparr>textInput_value := str ''   ''\<rparr>"

definition short_generator :: generator where
  "short_generator = sample_generator\<lparr>textInput_value := str ''hello world'', maxLength := 5\<rparr>"

text \<open>
  An image of 100 by 100 pixels; a code found close to its top left corner; a code
  found upside down, so that the corner reported as bottom right lies up and to the
  left of the one reported as top left.
\<close>

definition sample_image :: image where
  "sample_image = \<lparr>img_width = 100, img_height = 100, img_pixels = replicate 40000 255\<rparr>"

definition pt :: "rat \<Rightarrow> rat \<Rightarrow> point" where
  "pt a b = \<lparr>pt_x = a, pt_y = b\<rparr>"

definition edge_location :: location where
  "edge_location =
     \<lparr>topRightCorner = pt 98 4, topLeftCorner = pt 3 4,
      bottomRightCorner = pt 98 97, bottomLeftCorner = pt 3 97,
      topRightFinderPattern = pt 90 12, topLeftFinderPattern = pt 11 12,
      bottomLeftFinderPattern = pt 11 89\<rparr>"

definition rotated_location :: location where
  "rotated_location =
     \<lparr>topRightCorner = pt 20 80, topLeftCorner = pt 80 80,
      bottomRightCorner = pt 20 20, bottomLeftCorner = pt 80 20,
      topRightFinderPattern = pt 28 72, topLeftFinderPattern = pt 72 72,
      bottomLeftFinderPattern = pt 72 28\<rparr>"

definition decoder_none :: decoder where
  "decoder_none pixels w h = Inr None"

definition decoder_throws :: decoder where
  "decoder_throws pixels w h = Inl (str ''Invalid version'')"

definition decoder_finds :: "code \<Rightarrow> decoder" where
  "decoder_finds c pixels w h = Inr (Some c)"

definition sample_scanner :: scanner where
  "sample_scanner =
     \<lparr>fileInput_value = str ''C:/fakepath/code.png'',
      preview_src = Url (str ''data:image/png;base64,AAAA''),
      previewArea_classList = [''preview-area''],
      resultText_value = str ''https://example.org'',
      copyBtn_disabled = False,
      clearBtn_disabled = False\<rparr>"

section \<open>The error-correction level\<close>

text \<open>
  Claim C1. The level depends on the length alone and is a step function of it:
  H up to 100, Q from 101 to 200, M from 201 to 500, L above 500. A longer input
  never gets a level with a higher recovery capacity. Lengths 50, 150, 300 and 600
  give H, Q, M and L.
\<close>

theorem getOptimalErrorCorrection_step:
  "(getOptimalErrorCorrection text = EC_H \<longleftrightarrow> length text \<le> 100) \<and>
   (getOptimalErrorCorrection text = EC_Q \<longleftrightarrow> 100 < length text \<and> length text \<le> 200) \<and>
   (getOptimalErrorCorrection text = EC_M \<longleftrightarrow> 200 < length text \<and> length text \<le> 500) \<and>
   (getOptimalErrorCorrection text = EC_L \<longleftrightarrow> 500 < length text) \<and>
   (length text = length text' \<longrightarrow>
      getOptimalErrorCorrection text = getOptimalErrorCorrection text') \<and>
   (length text \<le> length text' \<longrightarrow>
      recovery_percent (getOptimalErrorCorrection text') \<le>
      recovery_percent (getOptimalErrorCorrection text)) \<and>
   getOptimalErrorCorrection (replicate 50 c) = EC_H \<and>
   getOptimalErrorCorrection (replicate 150 c) = EC_Q \<and>
   getOptimalErrorCorrection (replicate 300 c) = EC_M \<and>
   getOptimalErrorCorrection (replicate 600 c) = EC_L"
  by (simp add: getOptimalErrorCorrection_def)

theorem getOptimalErrorCorrection_step_witness:
  "length (replicate 150 (0 :: 8 word)) \<le> length (replicate 300 (0 :: 8 word)) \<and>
   length (replicate 300 (0 :: 8 word)) = length (replicate 300 (1 :: 8 word)) \<and>
   getOptimalErrorCorrection (replicate 300 (0 :: 8 word)) =
     getOptimalErrorCorrection (replicate 300 (1 :: 8 word)) \<and>
   recovery_percent (getOptimalErrorCorrection (replicate 300 (0 :: 8 word))) \<le>
     recovery_percent (getOptimalErrorCorrection (replicate 150 (0 :: 8 word))) \<and>
   getOptimalErrorCorrection (replicate 150 (0 :: 8 word)) = EC_Q \<and>
   getOptimalErrorCorrection (replicate 300 (0 :: 8 word)) = EC_M"
  using getOptimalErrorCorrection_step [of "replicate 150 (0 :: 8 word)" "replicate 300 (0 :: 8 word)" 0]
    getOptimalErrorCorrection_step [of "replicate 300 (0 :: 8 word)" "replicate 300 (1 :: 8 word)" 0]
  by auto

section \<open>The rendered symbol\<close>

text \<open>Both loops only append to the children; the inner one appends a row's dark rectangles.\<close>

lemma col_loop_eq:
  "col_loop q ms n row col s =
     s\<lparr>svg_children := svg_children s @ map (dark_rect ms row) (filter (isDark q row) [col..<n])\<rparr>"
proof (induction q ms n row col s rule: col_loop.induct)
  case (1 q ms n row col s)
  show ?case
  proof (cases "col < n")
    case True
    then have "[col..<n] = col # [Suc col..<n]"
      by (simp add: upt_conv_Cons)
    with True 1 show ?thesis
      by (subst col_loop.simps) (simp add: appendChild_def)
  next
    case False
    then show ?thesis
      by (subst col_loop.simps) simp
  qed
qed

lemma col_loop_row:
  "col_loop q ms n row 0 s = s\<lparr>svg_children := svg_children s @ row_rects q ms n row\<rparr>"
  by (simp add: col_loop_eq row_rects_def)

lemma row_loop_eq:
  "row_loop q ms n row s =
     s\<lparr>svg_children := svg_children s @ concat (map (row_rects q ms n) [row..<n])\<rparr>"
proof (induction q ms n row s rule: row_loop.induct)
  case (1 q ms n row s)
  show ?case
  proof (cases "row < n")
    case True
    then have "[row..<n] = row # [Suc row..<n]"
      by (simp add: upt_conv_Cons)
    with True 1 show ?thesis
      by (subst row_loop.simps) (simp add: col_loop_row)
  next
    case False
    then show ?thesis
      by (subst row_loop.simps) simp
  qed
qed

lemma createQRCodeSVG_children:
  "svg_children (createQRCodeSVG q) =
     background_rect #
     concat (map (row_rects q (200 / of_nat (getModuleCount q)) (getModuleCount q))
                 [0..<getModuleCount q])"
  by (simp add: createQRCodeSVG_def Let_def row_loop_eq appendChild_def)

lemma createQRCodeSVG_attrs:
  "svg_attrs (createQRCodeSVG q) =
     [(''width'', Text ''200''), (''height'', Text ''200''), (''viewBox'', Text ''0 0 200 200'')]"
  by (simp add: createQRCodeSVG_def Let_def row_loop_eq appendChild_def nat_toString.simps)

lemma dark_rect_inj:
  "ms \<noteq> 0 \<Longrightarrow> dark_rect ms row col = dark_rect ms r c \<longleftrightarrow> row = r \<and> col = c"
  by (auto simp: dark_rect_def)

lemma dark_rect_not_background: "dark_rect ms row col \<noteq> background_rect"
  by (simp add: dark_rect_def background_rect_def)

lemma set_dark_rects:
  "set (concat (map (row_rects q ms n) [0..<n])) =
     {dark_rect ms row col | row col. row < n \<and> col < n \<and> isDark q row col}"
  by (auto simp: row_rects_def) blast

lemma length_row_rects:
  "length (row_rects q ms n row) = card {col. col < n \<and> isDark q row col}"
proof -
  have "{i. i < length [0..<n] \<and> isDark q row ([0..<n] ! i)} = {col. col < n \<and> isDark q row col}"
    by auto
  then show ?thesis
    by (simp add: row_rects_def length_filter_conv_card)
qed

lemma length_dark_rects:
  "length (concat (map (row_rects q ms n) [0..<n])) =
     card {(row, col). row < n \<and> col < n \<and> isDark q row col}"
proof -
  have "{(row, col). row < n \<and> col < n \<and> isDark q row col} =
        (SIGMA row : {0..<n}. {col. col < n \<and> isDark q row col})"
    by auto
  moreover have "card (SIGMA row : {0..<n}. {col. col < n \<and> isDark q row col}) =
        (\<Sum>row \<in> {0..<n}. card {col. col < n \<and> isDark q row col})"
    by (rule card_SigmaI) auto
  moreover have "length (concat (map (row_rects q ms n) [0..<n])) =
        (\<Sum>row \<in> {0..<n}. card {col. col < n \<and> isDark q row col})"
    by (simp add: length_concat comp_def length_row_rects interv_sum_list_conv_sum_set_nat)
  ultimately show ?thesis by simp
qed

text \<open>
  Claim C5. The symbol is drawn on a 200 by 200 canvas with modules of size 200
  divided by the module count. For every cell of the grid, the black rectangle at
  (col * moduleSize, row * moduleSize) is among the children exactly when the cell is
  dark; every child is the white background or the rectangle of a dark cell; and
  there are as many rectangles as dark cells, plus the background.
\<close>

theorem createQRCodeSVG_modules:
  "let n = getModuleCount q; moduleSize = 200 / of_nat n; v = createQRCodeSVG q in
     svg_attrs v =
       [(''width'', Text ''200''), (''height'', Text ''200''), (''viewBox'', Text ''0 0 200 200'')] \<and>
     (\<forall>row col. row < n \<and> col < n \<longrightarrow>
        ([(''x'', Num (of_nat col * moduleSize)), (''y'', Num (of_nat row * moduleSize)),
          (''width'', Num moduleSize), (''height'', Num moduleSize),
          (''fill'', Text ''#000000'')] \<in> set (svg_children v)) = isDark q row col) \<and>
     (\<forall>r \<in> set (svg_children v).
        r = [(''width'', Text ''100%''), (''height'', Text ''100%''), (''fill'', Text ''#ffffff'')] \<or>
        (\<exists>row col. row < n \<and> col < n \<and> isDark q row col \<and>
           r = [(''x'', Num (of_nat col * moduleSize)), (''y'', Num (of_nat row * moduleSize)),
                (''width'', Num moduleSize), (''height'', Num moduleSize),
                (''fill'', Text ''#000000'')])) \<and>
     length (svg_children v) = 1 + card {(row, col). row < n \<and> col < n \<and> isDark q row col}"
proof -
  define n where "n = getModuleCount q"
  define ms :: rat where "ms = 200 / of_nat n"
  have children: "set (svg_children (createQRCodeSVG q)) =
      insert background_rect {dark_rect ms row col | row col. row < n \<and> col < n \<and> isDark q row col}"
    by (simp only: createQRCodeSVG_children list.set set_dark_rects n_def ms_def)
  have iff: "(dark_rect ms row col \<in> set (svg_children (createQRCodeSVG q))) = isDark q row col"
    if "row < n" "col < n" for row col
  proof -
    from that have "ms \<noteq> 0" by (auto simp: ms_def)
    with that show ?thesis
      by (auto simp: children dark_rect_not_background dark_rect_inj)
  qed
  have only: "r = background_rect \<or>
      (\<exists>row col. row < n \<and> col < n \<and> isDark q row col \<and> r = dark_rect ms row col)"
    if "r \<in> set (svg_children (createQRCodeSVG q))" for r
    using that by (auto simp: children)
  have count: "length (svg_children (createQRCodeSVG q)) =
      1 + card {(row, col). row < n \<and> col < n \<and> isDark q row col}"
    by (simp add: createQRCodeSVG_children length_dark_rects n_def)
  from iff only count show ?thesis
    unfolding Let_def n_def [symmetric] ms_def [symmetric]
    by (simp add: createQRCodeSVG_attrs dark_rect_def background_rect_def)
qed

theorem createQRCodeSVG_modules_witness:
  "(1::nat) < 3 \<and> (0::nat) < 3 \<and>
   isDark sample_qr 1 1 \<and>
   [(''x'', Num (200 / 3)), (''y'', Num (200 / 3)), (''width'', Num (200 / 3)),
    (''height'', Num (200 / 3)), (''fill'', Text ''#000000'')]
     \<in> set (svg_children (createQRCodeSVG sample_qr)) \<and>
   \<not> isDark sample_qr 0 1 \<and>
   [(''x'', Num (200 / 3)), (''y'', Num 0), (''width'', Num (200 / 3)),
    (''height'', Num (200 / 3)), (''fill'', Text ''#000000'')]
     \<notin> set (svg_children (createQRCodeSVG sample_qr)) \<and>
   length (svg_children (createQRCodeSVG sample_qr)) = 4"
proof -
  have n: "getModuleCount sample_qr = 3" and d: "isDark sample_qr = (\<lambda>row col. row = col)"
    by (simp_all add: sample_qr_def)
  have c: "{(row, col). row < (3::nat) \<and> col < (3::nat) \<and> row = col} = {(0, 0), (1, 1), (2, 2)}"
    by auto
  note m = createQRCodeSVG_modules [of sample_qr, unfolded Let_def n d]
  from m have a: "\<forall>row col. row < 3 \<and> col < 3 \<longrightarrow>
        ([(''x'', Num (of_nat col * (200 / of_nat 3))), (''y'', Num (of_nat row * (200 / of_nat 3))),
          (''width'', Num (200 / of_nat 3)), (''height'', Num (200 / of_nat 3)),
          (''fill'', Text ''#000000'')] \<in> set (svg_children (createQRCodeSVG sample_qr))) = (row = col)"
    by blast
  from m have l: "length (svg_children (createQRCodeSVG sample_qr)) = 4"
    by (simp add: c)
  from a [rule_format, of 1 1] a [rule_format, of 0 1] l show ?thesis
    by (simp add: d)
qed

section \<open>Validation before encoding\<close>

text \<open>Trimming and encoding of the sample texts.\<close>

lemma trim_hello: "trim (str '' hello '') = str ''hello''"
  by (simp add: trim_def str_def isWhiteSpace_def)

lemma trim_blank: "trim (str ''   '') = []"
  by (simp add: trim_def str_def isWhiteSpace_def)

lemma trim_hello_world: "trim (str ''hello world'') = str ''hello world''"
  by (simp add: trim_def str_def isWhiteSpace_def)

lemma encode_hello: "TextEncoder_encode (str ''hello'') = [104, 101, 108, 108, 111]"
  by (simp add: TextEncoder_encode_def str_def utf8_def scalar_of_unit_def
      isHighSurrogate_def isLowSurrogate_def)

text \<open>
  Claim C2, as the code has it. \<open>generateQRCode\<close> trims the text of the input field
  first. The encoder is called, once, exactly when the trimmed text has a length
  above 0 and at most the maximum. A trimmed text of length 0 is answered with the
  message to enter some text, a trimmed text longer than the maximum with the message
  that it is too long; in both cases no call reaches the encoder and the container
  keeps its content.
\<close>

theorem generateQRCode_validation:
  "let text = trim (textInput_value g); g' = generateQRCode qrcode g in
     (encoder_calls g' =
        encoder_calls g @
          [(getOptimalErrorCorrection (TextEncoder_encode text), TextEncoder_encode text)]
      \<longleftrightarrow> 0 < length text \<and> length text \<le> maxLength g) \<and>
     (length text = 0 \<longrightarrow>
        errorContainer_textContent g' = str ''Please enter some text first!'' \<and>
        encoder_calls g' = encoder_calls g \<and> qrCodeContainer g' = qrCodeContainer g) \<and>
     (maxLength g < length text \<longrightarrow>
        errorContainer_textContent g' =
          str (''Text is too long! Maximum '' @ nat_toString (maxLength g) @
               '' characters allowed.'') \<and>
        encoder_calls g' = encoder_calls g \<and> qrCodeContainer g' = qrCodeContainer g)"
  by (auto simp: generateQRCode_def Let_def showError_def showQRCodeInfo_def split: sum.splits)

theorem generateQRCode_validation_witness:
  "(0 < length (trim (textInput_value sample_generator)) \<and>
    length (trim (textInput_value sample_generator)) \<le> maxLength sample_generator \<and>
    encoder_calls (generateQRCode sample_encoder sample_generator) =
      [(EC_H, [104, 101, 108, 108, 111])]) \<and>
   (length (trim (textInput_value blank_generator)) = 0 \<and>
    errorContainer_textContent (generateQRCode sample_encoder blank_generator) =
      str ''Please enter some text first!'') \<and>
   (maxLength short_generator < length (trim (textInput_value short_generator)) \<and>
    errorContainer_textContent (generateQRCode sample_encoder short_generator) =
      str ''Text is too long! Maximum 5 characters allowed.'')"
proof -
  have a: "trim (textInput_value sample_generator) = str ''hello''"
    and b: "trim (textInput_value blank_generator) = []"
    and c: "trim (textInput_value short_generator) = str ''hello world''"
    by (simp_all add: sample_generator_def blank_generator_def short_generator_def
        trim_hello trim_blank trim_hello_world)
  have l: "length (str ''hello'') = 5" "length (str ''hello world'') = 11"
    by (simp_all add: str_def)
  have m: "maxLength sample_generator = 1000" "maxLength short_generator = 5"
    "encoder_calls sample_generator = []"
    by (simp_all add: sample_generator_def short_generator_def)
  have e: "getOptimalErrorCorrection [104, 101, 108, 108, 111 :: 8 word] = EC_H"
    by (simp add: getOptimalErrorCorrection_def)
  have n: "nat_toString 5 = ''5''"
    by (simp add: nat_toString.simps)
  from generateQRCode_validation [of sample_generator sample_encoder]
    generateQRCode_validation [of blank_generator sample_encoder]
    generateQRCode_validation [of short_generator sample_encoder]
  show ?thesis
    unfolding Let_def a b c by (simp add: l m e n encode_hello)
qed

text \<open>
  A text of three spaces has a length above 0 and below the maximum of 1000, and is
  rejected with the message to enter some text, without a call to the encoder.
\<close>

theorem generateQRCode_validation_counterexample:
  "0 < length (textInput_value blank_generator) \<and>
   length (textInput_value blank_generator) \<le> maxLength blank_generator \<and>
   errorContainer_textContent (generateQRCode sample_encoder blank_generator) =
     str ''Please enter some text first!'' \<and>
   encoder_calls (generateQRCode sample_encoder blank_generator) = []"
  by (simp add: generateQRCode_def Let_def showError_def blank_generator_def sample_generator_def trim_blank)
   (simp add: str_def)

section \<open>Failure of the encoder\<close>

text \<open>
  Claim C6. When the text passes validation and the encoder throws, the container is
  empty afterwards, whatever it held before, and the error container shows the
  message that the code could not be generated.
\<close>

theorem generateQRCode_encoder_failure:
  "0 < length (trim (textInput_value g)) \<Longrightarrow>
   length (trim (textInput_value g)) \<le> maxLength g \<Longrightarrow>
   qrcode (getOptimalErrorCorrection (TextEncoder_encode (trim (textInput_value g))))
          (TextEncoder_encode (trim (textInput_value g))) = Inl e \<Longrightarrow>
   qrCodeContainer (generateQRCode qrcode g) = [] \<and>
   errorContainer_textContent (generateQRCode qrcode g) =
     str ''Error generating QR code. The text might be too long or contain unsupported characters.''"
  by (simp add: generateQRCode_def Let_def showError_def str_def)

theorem generateQRCode_encoder_failure_witness:
  "0 < length (trim (textInput_value sample_generator)) \<and>
   length (trim (textInput_value sample_generator)) \<le> maxLength sample_generator \<and>
   failing_encoder
     (getOptimalErrorCorrection (TextEncoder_encode (trim (textInput_value sample_generator))))
     (TextEncoder_encode (trim (textInput_value sample_generator))) = Inl (str ''code length overflow'') \<and>
   qrCodeContainer sample_generator \<noteq> [] \<and>
   qrCodeContainer (generateQRCode failing_encoder sample_generator) = [] \<and>
   errorContainer_textContent (generateQRCode failing_encoder sample_generator) =
     str ''Error generating QR code. The text might be too long or contain unsupported characters.''"
proof -
  have a: "trim (textInput_value sample_generator) = str ''hello''"
    by (simp add: sample_generator_def trim_hello)
  have l: "0 < length (trim (textInput_value sample_generator))"
    "length (trim (textInput_value sample_generator)) \<le> maxLength sample_generator"
    unfolding a by (simp_all add: str_def sample_generator_def)
  have f: "failing_encoder
     (getOptimalErrorCorrection (TextEncoder_encode (trim (textInput_value sample_generator))))
     (TextEncoder_encode (trim (textInput_value sample_generator))) = Inl (str ''code length overflow'')"
    by (simp add: failing_encoder_def)
  have c: "qrCodeContainer sample_generator \<noteq> []"
    by (simp add: sample_generator_def)
  from generateQRCode_encoder_failure
      [of sample_generator failing_encoder "str ''code length overflow''", OF l f] l f c
  show ?thesis
    by simp
qed

section \<open>Expiry of error messages\<close>

text \<open>
  Claim C7, as the code has it. \<open>showError\<close> registers a callback that empties the
  error container 5000 milliseconds later, whatever the container shows then, and
  nothing ever cancels a callback. After \<open>d\<close> milliseconds without another event the
  message is still shown exactly when \<open>d\<close> is below 5000 and no callback registered
  by an earlier message was due within \<open>d\<close>; otherwise the container is empty.
\<close>

theorem showError_expiry:
  "errorContainer_textContent (elapse d (showError message g)) =
     (if d < 5000 \<and> (\<forall>t \<in> set (timeouts g). d < t) then message else [])"
  by (auto simp: elapse_def showError_def filter_empty_conv)

text \<open>
  A first message is shown, and 3000 milliseconds later a second one. After another
  2000 milliseconds the first message's callback runs and the container is empty,
  although the second message's own callback is still 3000 milliseconds away.
\<close>

theorem showError_expiry_counterexample:
  "errorContainer_textContent
     (showError (str ''second'') (elapse 3000 (showError (str ''first'') sample_generator))) =
     str ''second'' \<and>
   errorContainer_textContent
     (elapse 2000
        (showError (str ''second'') (elapse 3000 (showError (str ''first'') sample_generator)))) = [] \<and>
   timeouts
     (elapse 2000
        (showError (str ''second'') (elapse 3000 (showError (str ''first'') sample_generator)))) = [3000]"
  by (simp add: elapse_def showError_def sample_generator_def)

theorem showError_expiry_witness:
  "timeouts (elapse 3000 (showError (str ''first'') sample_generator)) = [2000] \<and>
   errorContainer_textContent
     (elapse 1999
        (showError (str ''second'') (elapse 3000 (showError (str ''first'') sample_generator)))) =
     str ''second'' \<and>
   errorContainer_textContent
     (elapse 5000
        (showError (str ''second'') (elapse 3000 (showError (str ''first'') sample_generator)))) = []"
proof -
  have t: "timeouts (elapse 3000 (showError (str ''first'') sample_generator)) = [2000]"
    by (simp add: elapse_def showError_def sample_generator_def)
  from showError_expiry [of 1999 "str ''second''" "elapse 3000 (showError (str ''first'') sample_generator)"]
    showError_expiry [of 5000 "str ''second''" "elapse 3000 (showError (str ''first'') sample_generator)"]
    t
  show ?thesis by simp
qed

section \<open>The scanner's result field and preview\<close>

lemma hidden_classList_add: "''hidden'' \<in> set (classList_add ''hidden'' cs)"
  by (simp add: classList_add_def)

lemma classList_add_idem: "classList_add c (classList_add c cs) = classList_add c cs"
  by (simp add: classList_add_def)

lemma trim_Nil: "trim [] = []"
  by (simp add: trim_def)

text \<open>
  Claim C4. When \<open>jsQR\<close> finds nothing, the result field holds exactly
  ``No QR code found'' and the preview area is hidden. When \<open>jsQR\<close> throws, the
  result field holds ``Error scanning QR code: '' followed by the error's message,
  and the preview area is hidden.
\<close>

theorem scanQRCode_failure:
  "(jsQR (img_pixels img) (img_width img) (img_height img) = Inr None \<longrightarrow>
      resultText_value (scanQRCode jsQR img s) = str ''No QR code found'' \<and>
      ''hidden'' \<in> set (previewArea_classList (scanQRCode jsQR img s))) \<and>
   (jsQR (img_pixels img) (img_width img) (img_height img) = Inl message \<longrightarrow>
      resultText_value (scanQRCode jsQR img s) = str ''Error scanning QR code: '' @ message \<and>
      ''hidden'' \<in> set (previewArea_classList (scanQRCode jsQR img s)))"
  by (simp add: scanQRCode_def hidden_classList_add)

theorem scanQRCode_failure_witness:
  "(decoder_none (img_pixels sample_image) (img_width sample_image) (img_height sample_image) =
      Inr None \<and>
    ''hidden'' \<notin> set (previewArea_classList sample_scanner) \<and>
    resultText_value (scanQRCode decoder_none sample_image sample_scanner) =
      str ''No QR code found'' \<and>
    ''hidden'' \<in> set (previewArea_classList (scanQRCode decoder_none sample_image sample_scanner))) \<and>
   (decoder_throws (img_pixels sample_image) (img_width sample_image) (img_height sample_image) =
      Inl (str ''Invalid version'') \<and>
    resultText_value (scanQRCode decoder_throws sample_image sample_scanner) =
      str ''Error scanning QR code: Invalid version'' \<and>
    ''hidden'' \<in> set (previewArea_classList (scanQRCode decoder_throws sample_image sample_scanner)))"
proof -
  have n: "decoder_none (img_pixels sample_image) (img_width sample_image) (img_height sample_image) =
      Inr None"
    and e: "decoder_throws (img_pixels sample_image) (img_width sample_image) (img_height sample_image) =
      Inl (str ''Invalid version'')"
    by (simp_all add: decoder_none_def decoder_throws_def)
  have h: "''hidden'' \<notin> set (previewArea_classList sample_scanner)"
    by (simp add: sample_scanner_def)
  from scanQRCode_failure [of decoder_none sample_image sample_scanner "str ''Invalid version''"]
    scanQRCode_failure [of decoder_throws sample_image sample_scanner "str ''Invalid version''"]
    n e h
  show ?thesis by (simp add: str_def)
qed

section \<open>The scanner's buttons\<close>

text \<open>
  \<open>toggleButtons\<close> disables both buttons exactly when the trimmed result text is
  empty, and the path of a successful decode ends with it.
\<close>

lemma toggleButtons_enabled:
  "copyBtn_disabled (toggleButtons s) = (trim (resultText_value s) = []) \<and>
   clearBtn_disabled (toggleButtons s) = (trim (resultText_value s) = []) \<and>
   resultText_value (toggleButtons s) = resultText_value s"
  by (simp add: toggleButtons_def Let_def)

lemma scanQRCode_success_buttons:
  assumes "jsQR (img_pixels img) (img_width img) (img_height img) = Inr (Some c)"
  shows "copyBtn_disabled (scanQRCode jsQR img s) =
           (trim (resultText_value (scanQRCode jsQR img s)) = []) \<and>
         clearBtn_disabled (scanQRCode jsQR img s) =
           (trim (resultText_value (scanQRCode jsQR img s)) = [])"
  using assms by (simp add: scanQRCode_def toggleButtons_def displayQRCodeArea_def Let_def)

text \<open>
  Claim C3 at a failing input. The two failure paths of \<open>scanQRCode\<close> write the
  result field and do not call \<open>toggleButtons\<close>: after a clear, a scan that finds
  nothing, or one in which \<open>jsQR\<close> throws, leaves a result text that is not blank
  and both buttons disabled.
\<close>

theorem toggleButtons_skipped_on_failure:
  "resultText_value (scanQRCode decoder_none sample_image (clearResults sample_scanner)) =
     str ''No QR code found'' \<and>
   trim (resultText_value (scanQRCode decoder_none sample_image (clearResults sample_scanner))) \<noteq> [] \<and>
   copyBtn_disabled (scanQRCode decoder_none sample_image (clearResults sample_scanner)) \<and>
   clearBtn_disabled (scanQRCode decoder_none sample_image (clearResults sample_scanner)) \<and>
   resultText_value (scanQRCode decoder_throws sample_image (clearResults sample_scanner)) =
     str ''Error scanning QR code: Invalid version'' \<and>
   trim (resultText_value (scanQRCode decoder_throws sample_image (clearResults sample_scanner))) \<noteq> [] \<and>
   copyBtn_disabled (scanQRCode decoder_throws sample_image (clearResults sample_scanner)) \<and>
   clearBtn_disabled (scanQRCode decoder_throws sample_image (clearResults sample_scanner))"
proof -
  have t: "trim (str ''No QR code found'') \<noteq> []"
    "trim (str ''Error scanning QR code: Invalid version'') \<noteq> []"
    by (simp_all add: trim_def str_def isWhiteSpace_def)
  have r: "resultText_value (scanQRCode decoder_none sample_image (clearResults sample_scanner)) =
        str ''No QR code found''"
    "resultText_value (scanQRCode decoder_throws sample_image (clearResults sample_scanner)) =
        str ''Error scanning QR code: Invalid version''"
    by (simp_all add: scanQRCode_def decoder_none_def decoder_throws_def str_def)
  have b: "copyBtn_disabled (scanQRCode decoder_none sample_image (clearResults sample_scanner))"
    "clearBtn_disabled (scanQRCode decoder_none sample_image (clearResults sample_scanner))"
    "copyBtn_disabled (scanQRCode decoder_throws sample_image (clearResults sample_scanner))"
    "clearBtn_disabled (scanQRCode decoder_throws sample_image (clearResults sample_scanner))"
    by (simp_all add: scanQRCode_def decoder_none_def decoder_throws_def clearResults_def
        toggleButtons_def trim_Nil)
  from t r b show ?thesis by simp
qed

section \<open>The crop region\<close>

text \<open>
  Claim C8. After a successful decode the preview shows a canvas whose width and
  height are the differences of the bottom right and top left corners plus twice the
  padding of 10, filled by one \<open>drawImage\<close> call whose source rectangle starts at
  the top left corner minus 10 in each axis and has that width and height. The
  equations hold for every location and image, so nothing clamps the rectangle to
  the image: in the sample it starts at (-7, -6) and reaches beyond 100 in both axes
  of an image of 100 by 100.
\<close>

theorem scanQRCode_crop_region:
  "jsQR (img_pixels img) (img_width img) (img_height img) = Inr (Some c) \<Longrightarrow>
   preview_src (scanQRCode jsQR img s) =
     DataURL_of
       \<lparr>canvas_width =
          pt_x (bottomRightCorner (code_location c)) - pt_x (topLeftCorner (code_location c)) + 2 * 10,
        canvas_height =
          pt_y (bottomRightCorner (code_location c)) - pt_y (topLeftCorner (code_location c)) + 2 * 10,
        canvas_draws =
          [\<lparr>source = img,
            sx = pt_x (topLeftCorner (code_location c)) - 10,
            sy = pt_y (topLeftCorner (code_location c)) - 10,
            sWidth =
              pt_x (bottomRightCorner (code_location c)) - pt_x (topLeftCorner (code_location c)) + 2 * 10,
            sHeight =
              pt_y (bottomRightCorner (code_location c)) - pt_y (topLeftCorner (code_location c)) + 2 * 10,
            dx = 0, dy = 0,
            dWidth =
              pt_x (bottomRightCorner (code_location c)) - pt_x (topLeftCorner (code_location c)) + 2 * 10,
            dHeight =
              pt_y (bottomRightCorner (code_location c)) - pt_y (topLeftCorner (code_location c)) + 2 * 10\<rparr>]\<rparr> \<and>
   resultText_value (scanQRCode jsQR img s) = code_data c \<and>
   ''hidden'' \<notin> set (previewArea_classList (scanQRCode jsQR img s))"
  by (simp add: scanQRCode_def displayQRCodeArea_def toggleButtons_def Let_def classList_remove_def)

theorem scanQRCode_crop_region_witness:
  "decoder_finds \<lparr>code_data = str ''hello'', code_location = edge_location\<rparr>
     (img_pixels sample_image) (img_width sample_image) (img_height sample_image) =
     Inr (Some \<lparr>code_data = str ''hello'', code_location = edge_location\<rparr>) \<and>
   preview_src
     (scanQRCode (decoder_finds \<lparr>code_data = str ''hello'', code_location = edge_location\<rparr>)
        sample_image sample_scanner) =
     DataURL_of
       \<lparr>canvas_width = 115, canvas_height = 113,
        canvas_draws =
          [\<lparr>source = sample_image, sx = - 7, sy = - 6, sWidth = 115, sHeight = 113,
            dx = 0, dy = 0, dWidth = 115, dHeight = 113\<rparr>]\<rparr> \<and>
   (- 7 :: rat) < 0 \<and> (- 6 :: rat) < 0 \<and>
   of_nat (img_width sample_image) < (- 7 + 115 :: rat) \<and>
   of_nat (img_height sample_image) < (- 6 + 113 :: rat)"
proof -
  have d: "decoder_finds \<lparr>code_data = str ''hello'', code_location = edge_location\<rparr>
     (img_pixels sample_image) (img_width sample_image) (img_height sample_image) =
     Inr (Some \<lparr>code_data = str ''hello'', code_location = edge_location\<rparr>)"
    by (simp add: decoder_finds_def)
  have w: "img_width sample_image = 100" "img_height sample_image = 100"
    by (simp_all add: sample_image_def)
  from scanQRCode_crop_region
    [of "decoder_finds \<lparr>code_data = str ''hello'', code_location = edge_location\<rparr>"
        sample_image "\<lparr>code_data = str ''hello'', code_location = edge_location\<rparr>" sample_scanner,
     OF d] d w
  show ?thesis
    by (simp add: edge_location_def pt_def)
qed

text \<open>
  Claim C10. For every location \<open>displayQRCodeArea\<close> uses the computed width and
  height as the canvas size and as both extents of the \<open>drawImage\<close> call and shows
  the preview; the width is zero or negative exactly when the bottom right corner's
  x plus 20 is at most the top left corner's x, and likewise the height. For the
  upside-down sample location both are -40.
\<close>

theorem displayQRCodeArea_dimensions_unguarded:
  "(\<exists>cv d. preview_src (displayQRCodeArea loc img s) = DataURL_of cv \<and>
      canvas_draws cv = [d] \<and>
      canvas_width cv = pt_x (bottomRightCorner loc) - pt_x (topLeftCorner loc) + 20 \<and>
      sWidth d = canvas_width cv \<and> dWidth d = canvas_width cv \<and>
      canvas_height cv = pt_y (bottomRightCorner loc) - pt_y (topLeftCorner loc) + 20 \<and>
      sHeight d = canvas_height cv \<and> dHeight d = canvas_height cv \<and>
      (canvas_width cv \<le> 0 \<longleftrightarrow> pt_x (bottomRightCorner loc) + 20 \<le> pt_x (topLeftCorner loc)) \<and>
      (canvas_height cv \<le> 0 \<longleftrightarrow> pt_y (bottomRightCorner loc) + 20 \<le> pt_y (topLeftCorner loc))) \<and>
   ''hidden'' \<notin> set (previewArea_classList (displayQRCodeArea loc img s)) \<and>
   pt_x (bottomRightCorner rotated_location) < pt_x (topLeftCorner rotated_location) \<and>
   pt_y (bottomRightCorner rotated_location) < pt_y (topLeftCorner rotated_location) \<and>
   preview_src (displayQRCodeArea rotated_location img s) =
     DataURL_of
       \<lparr>canvas_width = - 40, canvas_height = - 40,
        canvas_draws =
          [\<lparr>source = img, sx = 70, sy = 70, sWidth = - 40, sHeight = - 40,
            dx = 0, dy = 0, dWidth = - 40, dHeight = - 40\<rparr>]\<rparr>"
  by (simp add: displayQRCodeArea_def Let_def classList_remove_def rotated_location_def pt_def)
    linarith

section \<open>Clearing\<close>

text \<open>
  Claim C9. \<open>clearAll\<close> empties the input text, the container and the error message;
  \<open>clearResults\<close> empties the result text, hides the preview area, clears the
  preview's source, resets the file picker and disables both buttons. Each of them
  applied twice gives the same state as applied once.
\<close>

theorem clear_resets:
  "textInput_value (clearAll g) = [] \<and>
   qrCodeContainer (clearAll g) = [] \<and>
   errorContainer_textContent (clearAll g) = [] \<and>
   clearAll (clearAll g) = clearAll g \<and>
   resultText_value (clearResults s) = [] \<and>
   ''hidden'' \<in> set (previewArea_classList (clearResults s)) \<and>
   preview_src (clearResults s) = Url [] \<and>
   fileInput_value (clearResults s) = [] \<and>
   copyBtn_disabled (clearResults s) \<and>
   clearBtn_disabled (clearResults s) \<and>
   clearResults (clearResults s) = clearResults s"
  by (simp add: clearAll_def clearResults_def toggleButtons_def trim_Nil
      hidden_classList_add classList_add_idem)

end
